theory Spec2Isabelle
  imports Main
begin

section \<open>The per-call relay of \<open>src/index.js\<close>\<close>

text \<open>
  The handler registered for \<open>/media-stream\<close> (lines 70--270 of \<open>index.js\<close>) owns five
  variables and two sockets: \<open>connection\<close> (the telephony side) and \<open>openAiWs\<close> (the
  AI side). Every callback is modelled as a function from the session to the new session
  and the list of socket calls it made, in the order it made them. A \<open>send\<close> is
  recorded as the call the handler issues; what the socket library does with a call on a
  socket that is not open is outside the repository and is not modelled. The last two
  fields of the session are the \<open>readyState\<close> of the two sockets: the event loop sets
  them, and the handlers read the AI one only (lines 226 and 258).

  JavaScript values are restricted to what the wire protocol carries: identifiers and
  payloads are strings, absent or \<open>null\<close> fields are \<open>None\<close>, timestamps are numbers
  with integer values (milliseconds), of either sign. A start message may come without
  a usable \<open>streamSid\<close> (\<open>null\<close>, or the field missing): line 235 stores what it
  finds.
  A message that does not parse, or that lacks the object a handler dereferences
  (\<open>data.start\<close>, \<open>data.media\<close>), raises inside the handler's \<open>try\<close> before any
  assignment and is caught there: it is the \<open>malformed\<close> message of each transport.
\<close>

subsection \<open>Data\<close>

datatype ready_state = CONNECTING | OPEN | CLOSING | CLOSED

record session =
  streamSid :: "string option"
  latestMediaTimestamp :: int
  lastAssistantItem :: "string option"
  markQueue :: "string list"
  responseStartTimestampTwilio :: "int option"
  aiReadyState :: ready_state
  telReadyState :: ready_state

text \<open>Messages arriving from the telephony socket (\<open>connection.on('message')\<close>).\<close>

datatype tel_in =
    Tel_start "string option"
  | Tel_media int string
  | Tel_mark
  | Tel_other string
  | Tel_malformed

text \<open>
  Messages arriving from the AI socket (\<open>openAiWs.on('message')\<close>): an audio delta with
  its \<open>delta\<close> string and optional \<open>item_id\<close>, the speech-started notice, any other
  event by its \<open>type\<close> (\<open>response.done\<close>, \<open>session.created\<close>, ...), or unparseable.
\<close>

datatype ai_in =
    Audio_delta string "string option"
  | Speech_started
  | Ai_other string
  | Ai_malformed

text \<open>Messages the handler writes to the telephony socket.\<close>

datatype tel_out =
    Out_media "string option" string
  | Out_mark "string option" string
  | Out_clear "string option"

text \<open>
  Messages the handler writes to the AI socket. \<open>Truncate item_id content_index
  audio_end_ms\<close>; the session update and the opening conversation item carry only
  constants of the file.
\<close>

datatype ai_out =
    Session_update
  | Conversation_item_create
  | Response_create
  | Audio_append string
  | Truncate string int int

datatype action =
    Tel_send tel_out
  | Ai_send ai_out
  | Ai_close_call
  | Tel_close_call

text \<open>
  What the event loop delivers to the session: a message or a close of either socket,
  the \<open>open\<close> and \<open>error\<close> events of the AI socket, and the timer that \<open>open\<close> arms
  for \<open>initializeSession\<close>.
\<close>

datatype event =
    Tel_message tel_in
  | Tel_closed
  | Ai_opened
  | Init_timer
  | Ai_message ai_in
  | Ai_closed
  | Ai_error

subsection \<open>JavaScript truthiness\<close>

text \<open>\<open>if (x)\<close> for a variable holding \<open>null\<close> or a string: the empty string is falsy.\<close>

fun truthy_str :: "string option \<Rightarrow> bool" where
  "truthy_str None = False"
| "truthy_str (Some s) = (s \<noteq> [])"

text \<open>\<open>if (x)\<close> for a variable holding \<open>null\<close> or a number: zero is falsy.\<close>

fun truthy_num :: "int option \<Rightarrow> bool" where
  "truthy_num None = False"
| "truthy_num (Some n) = (n \<noteq> 0)"

subsection \<open>Base64 as \<open>Buffer\<close> reads and writes it\<close>

text \<open>
  Line 192 calls \<open>Buffer.from(delta, 'base64').toString('base64')\<close>. \<open>Buffer\<close> belongs
  to the Node.js runtime, not to the repository; it is modelled from the runtime's
  documented behaviour. Decoding accepts the standard and the URL-safe alphabet, skips
  every other character, stops at the first \<open>=\<close>, and turns a trailing group of two or
  three characters into one or two bytes (a single trailing character gives none).
  Encoding is RFC 4648 with padding. Bytes are naturals below 256.
\<close>

definition unbase64 :: "char \<Rightarrow> nat option" where
  "unbase64 c =
     (let n = (of_char c :: nat) in
      if 65 \<le> n \<and> n \<le> 90 then Some (n - 65)
      else if 97 \<le> n \<and> n \<le> 122 then Some (n - 71)
      else if 48 \<le> n \<and> n \<le> 57 then Some (n + 4)
      else if n = 43 \<or> n = 45 then Some 62
      else if n = 47 \<or> n = 95 then Some 63
      else None)"

definition base64_char :: "nat \<Rightarrow> char" where
  "base64_char n =
     char_of (if n < 26 then 65 + n
              else if n < 52 then 71 + n
              else if n < 62 then n - 4
              else if n = 62 then (43::nat)
              else 47)"

fun sextets_to_bytes :: "nat list \<Rightarrow> nat list" where
  "sextets_to_bytes [] = []"
| "sextets_to_bytes [s1] = []"
| "sextets_to_bytes [s1, s2] = [(s1 * 4 + s2 div 16) mod 256]"
| "sextets_to_bytes [s1, s2, s3] =
     [(s1 * 4 + s2 div 16) mod 256, ((s2 mod 16) * 16 + s3 div 4) mod 256]"
| "sextets_to_bytes (s1 # s2 # s3 # s4 # ss) =
     (s1 * 4 + s2 div 16) mod 256 # ((s2 mod 16) * 16 + s3 div 4) mod 256 #
     ((s3 mod 4) * 64 + s4) mod 256 # sextets_to_bytes ss"

text \<open>The 6-bit values of the characters read: up to the first \<open>=\<close>, illegal ones skipped.\<close>

definition base64_sextets :: "string \<Rightarrow> nat list" where
  "base64_sextets s = List.map_filter unbase64 (takeWhile (\<lambda>c. c \<noteq> CHR ''='') s)"

definition base64_decode :: "string \<Rightarrow> nat list" where
  "base64_decode s = sextets_to_bytes (base64_sextets s)"

fun base64_encode :: "nat list \<Rightarrow> string" where
  "base64_encode [] = []"
| "base64_encode [a] =
     [base64_char (a div 4), base64_char ((a mod 4) * 16), CHR ''='', CHR ''='']"
| "base64_encode [a, b] =
     [base64_char (a div 4), base64_char ((a mod 4) * 16 + b div 16),
      base64_char ((b mod 16) * 4), CHR ''='']"
| "base64_encode (a # b # c # bs) =
     base64_char (a div 4) # base64_char ((a mod 4) * 16 + b div 16) #
     base64_char ((b mod 16) * 4 + c div 64) # base64_char (c mod 64) # base64_encode bs"

text \<open>The expression of line 192.\<close>

definition base64_normalize :: "string \<Rightarrow> string" where
  "base64_normalize d = base64_encode (base64_decode d)"




subsection \<open>The callbacks\<close>

text \<open>The state a connection starts with (lines 74--78); the AI socket is being opened.\<close>

definition initial :: session where
  "initial = \<lparr> streamSid = None, latestMediaTimestamp = 0, lastAssistantItem = None,
               markQueue = [], responseStartTimestampTwilio = None,
               aiReadyState = CONNECTING, telReadyState = OPEN \<rparr>"

text \<open>
  \<open>initializeSession\<close> (lines 88--107) with \<open>sendInitialConversationItem\<close> (110--128):
  three sends, none behind a check.
\<close>

definition initializeSession :: "session \<Rightarrow> session \<times> action list" where
  "initializeSession s =
     (s, [Ai_send Session_update, Ai_send Conversation_item_create, Ai_send Response_create])"

text \<open>\<open>handleSpeechStartedEvent\<close> (lines 131--157).\<close>

definition handleSpeechStartedEvent :: "session \<Rightarrow> session \<times> action list" where
  "handleSpeechStartedEvent s =
     (if markQueue s \<noteq> [] then
        (case responseStartTimestampTwilio s of
           None \<Rightarrow> (s, [])
         | Some r \<Rightarrow>
             (let elapsedTime = latestMediaTimestamp s - r in
              (s\<lparr> markQueue := [], lastAssistantItem := None,
                  responseStartTimestampTwilio := None \<rparr>,
               (case lastAssistantItem s of
                  None \<Rightarrow> []
                | Some i \<Rightarrow> if i \<noteq> [] then [Ai_send (Truncate i 0 elapsedTime)] else [])
               @ [Tel_send (Out_clear (streamSid s))])))
      else (s, []))"

text \<open>\<open>sendMark\<close> (lines 160--170), called with the session's own \<open>streamSid\<close>.\<close>

definition sendMark :: "session \<Rightarrow> session \<times> action list" where
  "sendMark s =
     (if truthy_str (streamSid s)
      then (s\<lparr> markQueue := markQueue s @ [''responsePart''] \<rparr>,
            [Tel_send (Out_mark (streamSid s) ''responsePart'')])
      else (s, []))"

text \<open>\<open>openAiWs.on('message')\<close> (lines 179--215).\<close>

fun on_ai_message :: "ai_in \<Rightarrow> session \<Rightarrow> session \<times> action list" where
  "on_ai_message (Audio_delta delta item_id) s =
     (if delta \<noteq> [] then
        (let s1 = (if \<not> truthy_num (responseStartTimestampTwilio s)
                   then s\<lparr> responseStartTimestampTwilio := Some (latestMediaTimestamp s) \<rparr>
                   else s);
             s2 = (if truthy_str item_id then s1\<lparr> lastAssistantItem := item_id \<rparr> else s1);
             (s3, marks) = sendMark s2
         in (s3, Tel_send (Out_media (streamSid s) (base64_normalize delta)) # marks))
      else (s, []))"
| "on_ai_message Speech_started s = handleSpeechStartedEvent s"
| "on_ai_message (Ai_other ty) s = (s, [])"
| "on_ai_message Ai_malformed s = (s, [])"

text \<open>\<open>connection.on('message')\<close> (lines 218--254).\<close>

fun on_tel_message :: "tel_in \<Rightarrow> session \<Rightarrow> session \<times> action list" where
  "on_tel_message (Tel_media ts payload) s =
     (s\<lparr> latestMediaTimestamp := ts \<rparr>,
      if aiReadyState s = OPEN then [Ai_send (Audio_append payload)] else [])"
| "on_tel_message (Tel_start sid) s =
     (s\<lparr> streamSid := sid, responseStartTimestampTwilio := None,
         latestMediaTimestamp := 0 \<rparr>, [])"
| "on_tel_message Tel_mark s =
     (if markQueue s \<noteq> [] then s\<lparr> markQueue := tl (markQueue s) \<rparr> else s, [])"
| "on_tel_message (Tel_other ev) s = (s, [])"
| "on_tel_message Tel_malformed s = (s, [])"

text \<open>
  One event of the loop. A \<open>close\<close> event finds its socket already \<open>CLOSED\<close>, an
  \<open>error\<close> event finds it \<open>CLOSING\<close>; \<open>connection.on('close')\<close> (257--260) closes the
  AI socket when it is open, \<open>openAiWs.on('close')\<close> (263--265) and
  \<open>openAiWs.on('error')\<close> (267--269) only log.
\<close>

fun step :: "session \<Rightarrow> event \<Rightarrow> session \<times> action list" where
  "step s (Tel_message m) = on_tel_message m s"
| "step s Tel_closed =
     (if aiReadyState s = OPEN
      then (s\<lparr> telReadyState := CLOSED, aiReadyState := CLOSING \<rparr>, [Ai_close_call])
      else (s\<lparr> telReadyState := CLOSED \<rparr>, []))"
| "step s Ai_opened = (s\<lparr> aiReadyState := OPEN \<rparr>, [])"
| "step s Init_timer = initializeSession s"
| "step s (Ai_message m) = on_ai_message m s"
| "step s Ai_closed = (s\<lparr> aiReadyState := CLOSED \<rparr>, [])"
| "step s Ai_error = (s\<lparr> aiReadyState := CLOSING \<rparr>, [])"

text \<open>A sequence of events, with everything the handlers sent, in order.\<close>

fun run :: "session \<Rightarrow> event list \<Rightarrow> session \<times> action list" where
  "run s [] = (s, [])"
| "run s (e # es) =
     (let (s1, out1) = step s e; (s2, out2) = run s1 es in (s2, out1 @ out2))"

subsection \<open>Notions the properties are stated with\<close>

text \<open>
  An auxiliary notion for the proofs: \<open>latestMediaTimestamp\<close> never decreases along the
  events. Every inbound media message carries a timestamp at least the value the variable
  holds when it arrives (\<open>lo\<close>), and a start message puts the variable, and so the
  bound, back to 0.
\<close>

fun ts_monotone :: "int \<Rightarrow> event list \<Rightarrow> bool" where
  "ts_monotone lo [] = True"
| "ts_monotone lo (Tel_message (Tel_media ts payload) # es) =
     (lo \<le> ts \<and> ts_monotone ts es)"
| "ts_monotone lo (Tel_message (Tel_start sid) # es) = ts_monotone 0 es"
| "ts_monotone lo (e # es) = ts_monotone lo es"

text \<open>The timestamps of the inbound media messages of an event sequence, in order.\<close>

fun media_timestamps :: "event list \<Rightarrow> int list" where
  "media_timestamps [] = []"
| "media_timestamps (Tel_message (Tel_media ts payload) # es) = ts # media_timestamps es"
| "media_timestamps (e # es) = media_timestamps es"

fun is_media :: "action \<Rightarrow> bool" where
  "is_media (Tel_send (Out_media sid payload)) = True"
| "is_media a = False"

fun is_clear :: "action \<Rightarrow> bool" where
  "is_clear (Tel_send (Out_clear sid)) = True"
| "is_clear a = False"

text \<open>
  The media chunks relayed to the caller and not yet acknowledged, counted from what
  crosses the telephony socket: a relayed media event adds one, a mark acknowledgment
  takes one away (when there is one), a clear instruction discards them all.
\<close>

fun unacknowledged :: "nat \<Rightarrow> session \<Rightarrow> event list \<Rightarrow> nat" where
  "unacknowledged n s [] = n"
| "unacknowledged n s (e # es) =
     (let (s1, out) = step s e;
          n1 = (if list_ex is_clear out then 0
                else if e = Tel_message Tel_mark then n - 1
                else n + length (filter is_media out))
      in unacknowledged n1 s1 es)"

subsection \<open>Invariants of the reachable sessions\<close>

text \<open>\<open>lastAssistantItem\<close> is \<open>null\<close> or a truthy string: line 203 stores only truthy ids.\<close>

definition item_ok :: "session \<Rightarrow> bool" where
  "item_ok s = (lastAssistantItem s \<noteq> Some [])"

text \<open>
  A queued mark was sent under a truthy stream identifier (the test of line 161); the
  identifier stays truthy as long as the start messages carry one.
\<close>

definition sid_ok :: "session \<Rightarrow> bool" where
  "sid_ok s = (markQueue s = [] \<or> truthy_str (streamSid s))"

fun mark_has_sid :: "action \<Rightarrow> bool" where
  "mark_has_sid (Tel_send (Out_mark sid name)) = truthy_str sid"
| "mark_has_sid a = True"

fun clear_has_sid :: "action \<Rightarrow> bool" where
  "clear_has_sid (Tel_send (Out_clear sid)) = truthy_str sid"
| "clear_has_sid a = True"

text \<open>The stamp of the current utterance is not later than the caller-side clock.\<close>

definition ts_ok :: "session \<Rightarrow> bool" where
  "ts_ok s = (case responseStartTimestampTwilio s of
                None \<Rightarrow> True | Some r \<Rightarrow> r \<le> latestMediaTimestamp s)"

fun nonneg_truncate :: "action \<Rightarrow> bool" where
  "nonneg_truncate (Ai_send (Truncate item idx ms)) = (0 \<le> ms)"
| "nonneg_truncate a = True"

text \<open>Every start message of the sequence names its stream (a truthy \<open>streamSid\<close>).\<close>

fun starts_named :: "event list \<Rightarrow> bool" where
  "starts_named [] = True"
| "starts_named (Tel_message (Tel_start sid) # es) = (truthy_str sid \<and> starts_named es)"
| "starts_named (e # es) = starts_named es"

section \<open>Lemmas\<close>

subsection \<open>Event sequences\<close>

lemma fst_run_Cons: "fst (run s (e # es)) = fst (run (fst (step s e)) es)"
  by (simp add: split_beta)

lemma snd_run_Cons: "snd (run s (e # es)) = snd (step s e) @ snd (run (fst (step s e)) es)"
  by (simp add: split_beta)

declare run.simps(2) [simp del]

lemma truthy_str_Some: "truthy_str x \<Longrightarrow> \<exists>y. x = Some y \<and> y \<noteq> []"
  by (cases x) simp_all

subsection \<open>Invariants\<close>

lemma step_item_ok:
  assumes "item_ok s"
  shows "item_ok (fst (step s e))"
proof (cases e)
  case (Tel_message m)
  with assms show ?thesis by (cases m) (auto simp: item_ok_def)
next
  case (Ai_message m)
  with assms show ?thesis
    by (cases m) (auto simp: item_ok_def handleSpeechStartedEvent_def sendMark_def Let_def
        split: option.splits if_splits prod.splits)
qed (use assms in \<open>auto simp: item_ok_def initializeSession_def\<close>)

lemma run_item_ok: "item_ok s \<Longrightarrow> item_ok (fst (run s evs))"
proof (induction evs arbitrary: s)
  case Nil
  then show ?case by simp
next
  case (Cons e es)
  from Cons.prems have "item_ok (fst (step s e))" by (rule step_item_ok)
  then have "item_ok (fst (run (fst (step s e)) es))" by (rule Cons.IH)
  then show ?case by (simp only: fst_run_Cons)
qed

lemma initial_item_ok: "item_ok initial"
  by (simp add: item_ok_def initial_def)

lemma step_mark_has_sid: "list_all mark_has_sid (snd (step s e))"
proof (cases e)
  case (Tel_message m)
  then show ?thesis by (cases m) auto
next
  case (Ai_message m)
  then show ?thesis
    by (cases m) (auto simp: handleSpeechStartedEvent_def sendMark_def Let_def
        split: option.splits)
qed (auto simp: initializeSession_def)

lemma run_mark_has_sid: "list_all mark_has_sid (snd (run s evs))"
  by (induction evs arbitrary: s) (simp_all add: snd_run_Cons step_mark_has_sid)

lemma step_sid_ok:
  assumes "sid_ok s" and "starts_named (e # es)"
  shows "sid_ok (fst (step s e)) \<and> starts_named es \<and> list_all clear_has_sid (snd (step s e))"
proof (cases e)
  case (Tel_message m)
  with assms show ?thesis by (cases m) (auto simp: sid_ok_def)
next
  case (Ai_message m)
  with assms show ?thesis
    by (cases m) (auto simp: sid_ok_def handleSpeechStartedEvent_def sendMark_def Let_def
        split: option.splits if_splits prod.splits)
qed (use assms in \<open>auto simp: sid_ok_def initializeSession_def\<close>)

lemma run_sid_ok:
  "sid_ok s \<Longrightarrow> starts_named evs \<Longrightarrow>
   sid_ok (fst (run s evs)) \<and> list_all clear_has_sid (snd (run s evs))"
proof (induction evs arbitrary: s)
  case Nil
  then show ?case by simp
next
  case (Cons e es)
  from step_sid_ok[OF Cons.prems]
  have a: "sid_ok (fst (step s e))" and b: "starts_named es"
    and c: "list_all clear_has_sid (snd (step s e))" by simp_all
  from Cons.IH[OF a b] c show ?case by (simp add: fst_run_Cons snd_run_Cons)
qed

lemma step_ts_ok:
  assumes "ts_ok s" and "ts_monotone (latestMediaTimestamp s) (e # es)"
  shows "ts_ok (fst (step s e)) \<and> ts_monotone (latestMediaTimestamp (fst (step s e))) es
         \<and> list_all nonneg_truncate (snd (step s e))"
proof (cases e)
  case (Tel_message m)
  with assms show ?thesis
    by (cases m) (auto simp: ts_ok_def split: option.splits)
next
  case (Ai_message m)
  with assms show ?thesis
    by (cases m) (auto simp: ts_ok_def handleSpeechStartedEvent_def sendMark_def Let_def
        split: option.splits if_splits prod.splits)
qed (use assms in \<open>auto simp: ts_ok_def initializeSession_def split: option.splits\<close>)

lemma run_ts_ok:
  "ts_ok s \<Longrightarrow> ts_monotone (latestMediaTimestamp s) evs \<Longrightarrow>
   list_all nonneg_truncate (snd (run s evs))"
proof (induction evs arbitrary: s)
  case Nil
  then show ?case by simp
next
  case (Cons e es)
  from step_ts_ok[OF Cons.prems]
  have a: "ts_ok (fst (step s e))"
    and b: "ts_monotone (latestMediaTimestamp (fst (step s e))) es"
    and c: "list_all nonneg_truncate (snd (step s e))" by simp_all
  from Cons.IH[OF a b] c show ?case by (simp add: snd_run_Cons)
qed

lemma truncate_only_on_interruption:
  assumes "Ai_send (Truncate item idx ms) \<in> set (snd (step s e))"
  shows "e = Ai_message Speech_started \<and>
         responseStartTimestampTwilio s = Some (latestMediaTimestamp s - ms)"
proof (cases e)
  case (Tel_message m)
  with assms show ?thesis by (cases m) (auto split: if_splits)
next
  case (Ai_message m)
  with assms show ?thesis
    by (cases m) (auto simp: handleSpeechStartedEvent_def sendMark_def Let_def
        split: option.splits if_splits prod.splits)
qed (use assms in \<open>auto simp: initializeSession_def split: if_splits\<close>)

lemma sorted_ts_monotone:
  "0 \<le> lo \<Longrightarrow> sorted (lo # media_timestamps evs) \<Longrightarrow> ts_monotone lo evs"
proof (induction lo evs rule: ts_monotone.induct)
  case (2 lo ts payload es)
  then show ?case by auto
next
  case (3 lo sid es)
  then show ?case by (auto intro: order_trans)
qed auto

subsection \<open>The mark queue once the stream is known\<close>

lemma unacknowledged_Cons:
  "unacknowledged n s (e # es) =
     unacknowledged
       (if list_ex is_clear (snd (step s e)) then 0
        else if e = Tel_message Tel_mark then n - 1
        else n + length (filter is_media (snd (step s e))))
       (fst (step s e)) es"
  by (simp add: split_beta Let_def)

lemma step_counts:
  assumes "truthy_str (streamSid s)" and "starts_named (e # es)"
  shows "truthy_str (streamSid (fst (step s e))) \<and> starts_named es \<and>
     length (markQueue (fst (step s e))) =
       (if list_ex is_clear (snd (step s e)) then 0
        else if e = Tel_message Tel_mark then length (markQueue s) - 1
        else length (markQueue s) + length (filter is_media (snd (step s e))))"
proof (cases e)
  case (Tel_message m)
  with assms show ?thesis by (cases m) auto
next
  case (Ai_message m)
  with assms show ?thesis
    by (cases m) (auto simp: handleSpeechStartedEvent_def sendMark_def Let_def
        split: option.splits)
qed (use assms in \<open>auto simp: initializeSession_def\<close>)

lemma mark_queue_counts_with_stream:
  "truthy_str (streamSid s) \<Longrightarrow> starts_named evs \<Longrightarrow>
   length (markQueue (fst (run s evs))) = unacknowledged (length (markQueue s)) s evs"
proof (induction evs arbitrary: s)
  case Nil
  then show ?case by simp
next
  case (Cons e es)
  from step_counts[OF Cons.prems]
  have a: "truthy_str (streamSid (fst (step s e)))" and b: "starts_named es"
    and c: "length (markQueue (fst (step s e))) =
       (if list_ex is_clear (snd (step s e)) then 0
        else if e = Tel_message Tel_mark then length (markQueue s) - 1
        else length (markQueue s) + length (filter is_media (snd (step s e))))"
    by simp_all
  from Cons.IH[OF a b] show ?case
    by (simp only: fst_run_Cons unacknowledged_Cons c)
qed

subsection \<open>Base64\<close>






















lemma byte1_back_pad: "(a::nat) < 256 \<Longrightarrow> (a div 4 * 4 + ((a mod 4) * 16) div 16) mod 256 = a"
  by simp




















subsection \<open>Evaluation of concrete event sequences\<close>

lemma normalize_QUJD: "base64_normalize ''QUJD'' = ''QUJD''"
  by code_simp

lemmas run_eval = run.simps initial_def sendMark_def handleSpeechStartedEvent_def
  initializeSession_def Let_def normalize_QUJD

lemma scenario_state:
  "fst (run initial [Tel_message (Tel_start (Some ''S1'')), Tel_message (Tel_media 100 ''AAAA''),
         Ai_message (Audio_delta ''QUJD'' (Some ''I1'')), Tel_message (Tel_media 250 ''AAAA'')])
   = \<lparr> streamSid = Some ''S1'', latestMediaTimestamp = 250, lastAssistantItem = Some ''I1'',
       markQueue = [''responsePart''], responseStartTimestampTwilio = Some 100,
       aiReadyState = CONNECTING, telReadyState = OPEN \<rparr>"
  by (simp add: run_eval)

section \<open>The claims\<close>

text \<open>
  Claim C1: no outbound event is sent on the telephony transport before \<open>streamSid\<close>
  has been set by a start event; in particular the media event for an audio delta that
  arrives before the first start event is not sent.

  The code sends it. The delta branch (lines 188--194) calls \<open>connection.send\<close> with
  no test of \<open>streamSid\<close>, while \<open>sendMark\<close>, called a few lines below from the same
  branch, tests \<open>if (streamSid)\<close> first. With the AI socket open and initialised and no
  start message received yet, one audio delta puts a media event with \<open>streamSid\<close>
  \<open>null\<close> on the telephony socket.
\<close>

theorem media_sent_before_start:
  "run initial [Ai_opened, Init_timer, Ai_message (Audio_delta ''QUJD'' (Some ''I1''))]
   = (\<lparr> streamSid = None, latestMediaTimestamp = 0, lastAssistantItem = Some ''I1'',
        markQueue = [], responseStartTimestampTwilio = Some 0,
        aiReadyState = OPEN, telReadyState = OPEN \<rparr>,
      [Ai_send Session_update, Ai_send Conversation_item_create, Ai_send Response_create,
       Tel_send (Out_media None ''QUJD'')])"
  by (simp add: run_eval)

text \<open>
  Claim C2: in every session state in which the interruption guard holds (\<open>markQueue\<close>
  non-empty and \<open>responseStartTimestampTwilio\<close> set), a speech-started event leaves
  \<open>markQueue\<close> empty and \<open>lastAssistantItem\<close> and \<open>responseStartTimestampTwilio\<close>
  unset, sends exactly one truncate instruction on the AI transport if
  \<open>lastAssistantItem\<close> was set and none otherwise, and sends exactly one clear
  instruction on the telephony transport. The session states are those the handlers
  reach from the initial one, under any sequence of events; the outputs are given in
  full, so nothing else is sent.
\<close>

theorem interruption_effect:
  assumes "s = fst (run initial evs)"
    and "markQueue s \<noteq> []"
    and "responseStartTimestampTwilio s = Some r"
  shows "step s (Ai_message Speech_started) =
     (s\<lparr> markQueue := [], lastAssistantItem := None, responseStartTimestampTwilio := None \<rparr>,
      (case lastAssistantItem s of
         None \<Rightarrow> []
       | Some i \<Rightarrow> [Ai_send (Truncate i 0 (latestMediaTimestamp s - r))])
      @ [Tel_send (Out_clear (streamSid s))])"
proof -
  have "item_ok s" unfolding assms(1) by (rule run_item_ok[OF initial_item_ok])
  then show ?thesis using assms(2,3)
    by (auto simp: handleSpeechStartedEvent_def item_ok_def split: option.splits)
qed

theorem interruption_effect_witness:
  "markQueue (fst (run initial [Tel_message (Tel_start (Some ''S1'')),
         Tel_message (Tel_media 100 ''AAAA''), Ai_message (Audio_delta ''QUJD'' (Some ''I1'')),
         Tel_message (Tel_media 250 ''AAAA'')])) \<noteq> []
   \<and> responseStartTimestampTwilio (fst (run initial [Tel_message (Tel_start (Some ''S1'')),
         Tel_message (Tel_media 100 ''AAAA''), Ai_message (Audio_delta ''QUJD'' (Some ''I1'')),
         Tel_message (Tel_media 250 ''AAAA'')])) = Some 100
   \<and> step (fst (run initial [Tel_message (Tel_start (Some ''S1'')),
         Tel_message (Tel_media 100 ''AAAA''), Ai_message (Audio_delta ''QUJD'' (Some ''I1'')),
         Tel_message (Tel_media 250 ''AAAA'')])) (Ai_message Speech_started)
     = (\<lparr> streamSid = Some ''S1'', latestMediaTimestamp = 250, lastAssistantItem = None,
          markQueue = [], responseStartTimestampTwilio = None,
          aiReadyState = CONNECTING, telReadyState = OPEN \<rparr>,
        [Ai_send (Truncate ''I1'' 0 150), Tel_send (Out_clear (Some ''S1''))])"
  using interruption_effect [OF refl, of "[Tel_message (Tel_start (Some ''S1'')),
         Tel_message (Tel_media 100 ''AAAA''), Ai_message (Audio_delta ''QUJD'' (Some ''I1'')),
         Tel_message (Tel_media 250 ''AAAA'')]" 100]
  by (simp add: scenario_state)

text \<open>
  Claim C3: in every session state in which \<open>markQueue\<close> is empty or
  \<open>responseStartTimestampTwilio\<close> is unset, a speech-started event changes no field of
  the session and sends nothing on either transport.
\<close>

theorem speech_started_noop:
  "markQueue s = [] \<or> responseStartTimestampTwilio s = None \<Longrightarrow>
   step s (Ai_message Speech_started) = (s, [])"
  by (auto simp: handleSpeechStartedEvent_def split: option.splits)

theorem speech_started_noop_witness:
  "(markQueue \<lparr> streamSid = Some ''S1'', latestMediaTimestamp = 0,
        lastAssistantItem = Some ''I1'', markQueue = [''responsePart''],
        responseStartTimestampTwilio = None, aiReadyState = OPEN, telReadyState = OPEN \<rparr> = []
    \<or> responseStartTimestampTwilio \<lparr> streamSid = Some ''S1'', latestMediaTimestamp = 0,
        lastAssistantItem = Some ''I1'', markQueue = [''responsePart''],
        responseStartTimestampTwilio = None, aiReadyState = OPEN, telReadyState = OPEN \<rparr> = None)
   \<and> step \<lparr> streamSid = Some ''S1'', latestMediaTimestamp = 0,
        lastAssistantItem = Some ''I1'', markQueue = [''responsePart''],
        responseStartTimestampTwilio = None, aiReadyState = OPEN, telReadyState = OPEN \<rparr>
       (Ai_message Speech_started)
     = (\<lparr> streamSid = Some ''S1'', latestMediaTimestamp = 0,
        lastAssistantItem = Some ''I1'', markQueue = [''responsePart''],
        responseStartTimestampTwilio = None, aiReadyState = OPEN, telReadyState = OPEN \<rparr>, [])"
  using speech_started_noop [of "\<lparr> streamSid = Some ''S1'', latestMediaTimestamp = 0,
        lastAssistantItem = Some ''I1'', markQueue = [''responsePart''],
        responseStartTimestampTwilio = None, aiReadyState = OPEN, telReadyState = OPEN \<rparr>"]
  by simp

text \<open>
  Claim C4, as amended: when an interruption is processed and an item is active, the
  truncate instruction is sent with \<open>audio_end_ms\<close> equal to
  \<open>latestMediaTimestamp - responseStartTimestampTwilio\<close> as the two stand at that
  moment; no other event sends a truncate instruction; and over every event sequence
  whose inbound media timestamps are non-negative and non-decreasing the value is never
  negative.

  The claim as stated asks only that the timestamps do not decrease. The handler stores
  whatever timestamp arrives (line 224), so after a delta has stamped 0 a media message
  with timestamp -5 followed by speech-started sends \<open>audio_end_ms = -5\<close>.
\<close>

theorem truncate_elapsed:
  "(markQueue s \<noteq> [] \<and> responseStartTimestampTwilio s = Some r \<and>
    lastAssistantItem s = Some item \<and> item \<noteq> [] \<longrightarrow>
      snd (step s (Ai_message Speech_started)) =
        [Ai_send (Truncate item 0 (latestMediaTimestamp s - r)),
         Tel_send (Out_clear (streamSid s))])
   \<and> (Ai_send (Truncate item' idx ms) \<in> set (snd (step s e)) \<longrightarrow>
      e = Ai_message Speech_started \<and>
      (\<exists>r. responseStartTimestampTwilio s = Some r \<and> ms = latestMediaTimestamp s - r))
   \<and> (sorted (0 # media_timestamps evs) \<and>
      Ai_send (Truncate item'' idx' ms') \<in> set (snd (run initial evs))
        \<longrightarrow> 0 \<le> ms')"
proof (intro conjI impI)
  assume "markQueue s \<noteq> [] \<and> responseStartTimestampTwilio s = Some r \<and>
    lastAssistantItem s = Some item \<and> item \<noteq> []"
  then show "snd (step s (Ai_message Speech_started)) =
        [Ai_send (Truncate item 0 (latestMediaTimestamp s - r)),
         Tel_send (Out_clear (streamSid s))]"
    by (simp add: handleSpeechStartedEvent_def)
next
  assume "Ai_send (Truncate item' idx ms) \<in> set (snd (step s e))"
  from truncate_only_on_interruption[OF this]
  show "e = Ai_message Speech_started"
    and "\<exists>r. responseStartTimestampTwilio s = Some r \<and> ms = latestMediaTimestamp s - r"
    by simp_all
next
  assume a: "sorted (0 # media_timestamps evs) \<and>
      Ai_send (Truncate item'' idx' ms') \<in> set (snd (run initial evs))"
  then have m: "ts_monotone 0 evs" by (simp add: sorted_ts_monotone)
  have "ts_ok initial" "latestMediaTimestamp initial = 0"
    by (simp_all add: ts_ok_def initial_def)
  with m have "list_all nonneg_truncate (snd (run initial evs))"
    using run_ts_ok[of initial evs] by simp
  with a have "nonneg_truncate (Ai_send (Truncate item'' idx' ms'))"
    unfolding list_all_iff by blast
  then show "0 \<le> ms'" by simp
qed

theorem truncate_elapsed_witness:
  "snd (step
       \<lparr> streamSid = Some ''S1'', latestMediaTimestamp = 250, lastAssistantItem = Some ''I1'',
         markQueue = [''responsePart''], responseStartTimestampTwilio = Some 100,
         aiReadyState = OPEN, telReadyState = OPEN \<rparr> (Ai_message Speech_started))
     = [Ai_send (Truncate ''I1'' 0 150), Tel_send (Out_clear (Some ''S1''))]
   \<and> sorted (0 # media_timestamps [Tel_message (Tel_start (Some ''S1'')), Ai_opened, Init_timer,
         Tel_message (Tel_media 100 ''AAAA''), Ai_message (Audio_delta ''QUJD'' (Some ''I1'')),
         Tel_message (Tel_media 250 ''AAAA''), Ai_message Speech_started])
   \<and> Ai_send (Truncate ''I1'' 0 150) \<in> set (snd (run initial
        [Tel_message (Tel_start (Some ''S1'')), Ai_opened, Init_timer,
         Tel_message (Tel_media 100 ''AAAA''), Ai_message (Audio_delta ''QUJD'' (Some ''I1'')),
         Tel_message (Tel_media 250 ''AAAA''), Ai_message Speech_started]))
   \<and> (0::int) \<le> 150"
  using truncate_elapsed [of
       "\<lparr> streamSid = Some ''S1'', latestMediaTimestamp = 250, lastAssistantItem = Some ''I1'',
         markQueue = [''responsePart''], responseStartTimestampTwilio = Some 100,
         aiReadyState = OPEN, telReadyState = OPEN \<rparr>" 100 "''I1''" "''I1''" 0 150
       "Ai_message Speech_started"
       "[Tel_message (Tel_start (Some ''S1'')), Ai_opened, Init_timer,
         Tel_message (Tel_media 100 ''AAAA''), Ai_message (Audio_delta ''QUJD'' (Some ''I1'')),
         Tel_message (Tel_media 250 ''AAAA''), Ai_message Speech_started]" "''I1''" 0 150]
  by (simp add: run_eval)

theorem truncate_negative_counterexample:
  "sorted (media_timestamps [Tel_message (Tel_start (Some ''S1'')), Ai_opened, Init_timer,
       Ai_message (Audio_delta ''QUJD'' (Some ''I1'')), Tel_message (Tel_media (- 5) ''AAAA''),
       Ai_message Speech_started])
   \<and> Ai_send (Truncate ''I1'' 0 (- 5)) \<in> set (snd (run initial
      [Tel_message (Tel_start (Some ''S1'')), Ai_opened, Init_timer,
       Ai_message (Audio_delta ''QUJD'' (Some ''I1'')), Tel_message (Tel_media (- 5) ''AAAA''),
       Ai_message Speech_started]))"
  by (simp add: run_eval)

text \<open>
  Claim C5: when either transport closes while the other is still open, the session
  closes the other; a close of the AI transport closes the telephony transport, and a
  close of the telephony transport closes the AI transport.

  The code does the second and not the first: \<open>connection.on('close')\<close> (lines
  257--260) closes the AI socket when it is open, \<open>openAiWs.on('close')\<close> (lines
  263--265) only logs. After a close of the AI socket the telephony socket is still
  open and no close has been called on it.
\<close>

theorem ai_close_leaves_telephony_open:
  "run initial [Tel_message (Tel_start (Some ''S1'')), Ai_opened, Init_timer, Ai_closed]
   = (\<lparr> streamSid = Some ''S1'', latestMediaTimestamp = 0, lastAssistantItem = None,
        markQueue = [], responseStartTimestampTwilio = None,
        aiReadyState = CLOSED, telReadyState = OPEN \<rparr>,
      [Ai_send Session_update, Ai_send Conversation_item_create, Ai_send Response_create])
   \<and> run initial [Tel_message (Tel_start (Some ''S1'')), Ai_opened, Init_timer, Tel_closed]
   = (\<lparr> streamSid = Some ''S1'', latestMediaTimestamp = 0, lastAssistantItem = None,
        markQueue = [], responseStartTimestampTwilio = None,
        aiReadyState = CLOSING, telReadyState = CLOSED \<rparr>,
      [Ai_send Session_update, Ai_send Conversation_item_create, Ai_send Response_create,
       Ai_close_call])"
  by (simp add: run_eval)

text \<open>
  Claim C6, as amended: of all the sends, only the audio-append send on the AI transport
  is behind a readiness check, and it is skipped silently when the AI socket is not
  open. What the message handler of the AI socket and \<open>initializeSession\<close> send
  (media, mark, clear, truncate, session update, conversation item, response request)
  does not depend on the ready state of either socket.

  The claim as stated, that every send is preceded by a check that its transport is
  open, fails: after the telephony socket has closed, which puts the AI socket in
  \<open>CLOSING\<close>, a speech-started event still sends a truncate instruction on the AI
  socket and a clear instruction on the closed telephony socket.
\<close>

theorem only_audio_append_guarded:
  "snd (step s (Tel_message (Tel_media ts payload))) =
     (if aiReadyState s = OPEN then [Ai_send (Audio_append payload)] else [])
   \<and> snd (step (s\<lparr> aiReadyState := ra, telReadyState := rt \<rparr>) (Ai_message m)) =
       snd (step s (Ai_message m))
   \<and> snd (step (s\<lparr> aiReadyState := ra, telReadyState := rt \<rparr>) Init_timer) =
       [Ai_send Session_update, Ai_send Conversation_item_create, Ai_send Response_create]"
  by (cases m) (auto simp: handleSpeechStartedEvent_def sendMark_def Let_def split_beta
      initializeSession_def split: option.splits)

theorem only_audio_append_guarded_witness:
  "snd (step initial (Tel_message (Tel_media 20 ''AAAA''))) = []
   \<and> snd (step (initial\<lparr> aiReadyState := OPEN \<rparr>) (Tel_message (Tel_media 20 ''AAAA'')))
       = [Ai_send (Audio_append ''AAAA'')]
   \<and> snd (step (initial\<lparr> aiReadyState := CLOSED, telReadyState := CLOSED \<rparr>)
            (Ai_message (Audio_delta ''QUJD'' None)))
       = [Tel_send (Out_media None ''QUJD'')]
   \<and> snd (step (initial\<lparr> aiReadyState := CLOSED, telReadyState := CLOSED \<rparr>) Init_timer)
       = [Ai_send Session_update, Ai_send Conversation_item_create, Ai_send Response_create]"
  using only_audio_append_guarded [of initial 20 "''AAAA''" CLOSED CLOSED
      "Audio_delta ''QUJD'' None"]
    only_audio_append_guarded [of "initial\<lparr> aiReadyState := OPEN \<rparr>" 20 "''AAAA''" CLOSED CLOSED
      "Audio_delta ''QUJD'' None"]
  by (simp add: run_eval)

theorem readiness_counterexample:
  "aiReadyState (fst (run initial
      [Tel_message (Tel_start (Some ''S1'')), Ai_opened, Init_timer,
       Ai_message (Audio_delta ''QUJD'' (Some ''I1'')), Tel_closed])) = CLOSING
   \<and> telReadyState (fst (run initial
      [Tel_message (Tel_start (Some ''S1'')), Ai_opened, Init_timer,
       Ai_message (Audio_delta ''QUJD'' (Some ''I1'')), Tel_closed])) = CLOSED
   \<and> snd (step (fst (run initial
      [Tel_message (Tel_start (Some ''S1'')), Ai_opened, Init_timer,
       Ai_message (Audio_delta ''QUJD'' (Some ''I1'')), Tel_closed])) (Ai_message Speech_started))
     = [Ai_send (Truncate ''I1'' 0 0), Tel_send (Out_clear (Some ''S1''))]"
  by (simp add: run_eval)

text \<open>
  Claim C7: within one utterance \<open>responseStartTimestampTwilio\<close> is assigned at most
  once; a stamp, also a stamp of 0, is not overwritten by a later delta of the same
  utterance; and the stamp is cleared exactly when the utterance ends or is interrupted.

  The code's comment at line 196 says the same (the first delta from a new response
  starts the elapsed time counter), and the code does not do it. Nothing clears the stamp
  when a response ends: after \<open>response.done\<close> it is still 100, the first delta of the
  next response at caller time 5000 finds it truthy at line 197 and leaves it, and an
  interruption at 5200, 200 ms into item \<open>I2\<close>, truncates that item at 5100 ms. And a
  stamp of 0, taken by a delta that arrives before any caller audio of the stream, is
  overwritten by the next delta of the same item: line 197 tests
  \<open>!responseStartTimestampTwilio\<close>, which holds for 0 as for \<open>null\<close>, where line 132
  tests \<open>!= null\<close>.
\<close>

theorem stamp_outlives_response:
  "responseStartTimestampTwilio (fst (run initial
      [Tel_message (Tel_start (Some ''S1'')), Ai_opened, Init_timer,
       Tel_message (Tel_media 100 ''AAAA''), Ai_message (Audio_delta ''QUJD'' (Some ''I1'')),
       Tel_message Tel_mark, Ai_message (Ai_other ''response.done'')]))
     = Some 100
   \<and> responseStartTimestampTwilio (fst (run initial
      [Tel_message (Tel_start (Some ''S1'')), Ai_opened, Init_timer,
       Tel_message (Tel_media 100 ''AAAA''), Ai_message (Audio_delta ''QUJD'' (Some ''I1'')),
       Tel_message Tel_mark, Ai_message (Ai_other ''response.done''),
       Tel_message (Tel_media 5000 ''AAAA''), Ai_message (Audio_delta ''QUJD'' (Some ''I2''))]))
     = Some 100
   \<and> snd (step (fst (run initial
      [Tel_message (Tel_start (Some ''S1'')), Ai_opened, Init_timer,
       Tel_message (Tel_media 100 ''AAAA''), Ai_message (Audio_delta ''QUJD'' (Some ''I1'')),
       Tel_message Tel_mark, Ai_message (Ai_other ''response.done''),
       Tel_message (Tel_media 5000 ''AAAA''), Ai_message (Audio_delta ''QUJD'' (Some ''I2'')),
       Tel_message (Tel_media 5200 ''AAAA'')])) (Ai_message Speech_started))
     = [Ai_send (Truncate ''I2'' 0 5100), Tel_send (Out_clear (Some ''S1''))]
   \<and> responseStartTimestampTwilio (fst (run initial
      [Tel_message (Tel_start (Some ''S1'')), Ai_opened, Init_timer,
       Ai_message (Audio_delta ''QUJD'' (Some ''I1''))]))
     = Some 0
   \<and> responseStartTimestampTwilio (fst (run initial
      [Tel_message (Tel_start (Some ''S1'')), Ai_opened, Init_timer,
       Ai_message (Audio_delta ''QUJD'' (Some ''I1'')), Tel_message (Tel_media 100 ''AAAA''),
       Ai_message (Audio_delta ''QUJD'' (Some ''I1''))]))
     = Some 100"
  by (simp add: run_eval)

text \<open>
  Claim C8: after every event the length of \<open>markQueue\<close> is the number of media chunks
  relayed to the telephony transport and not yet acknowledged; one mark is enqueued per
  relayed audio delta.

  The code relays a delta that arrives before the first start message and enqueues no
  mark for it: the media send of line 194 is unconditional, \<open>sendMark\<close> returns
  without sending when \<open>streamSid\<close> is unset. One chunk is then outstanding and the
  queue is empty. From a session whose \<open>streamSid\<close> is set the two numbers agree after
  every event (\<open>mark_queue_counts_with_stream\<close>).
\<close>

theorem relayed_chunk_without_mark:
  "length (markQueue (fst (run initial
      [Ai_opened, Init_timer, Ai_message (Audio_delta ''QUJD'' (Some ''I1''))]))) = 0
   \<and> unacknowledged 0 initial
      [Ai_opened, Init_timer, Ai_message (Audio_delta ''QUJD'' (Some ''I1''))] = 1"
  by (simp add: run_eval)

text \<open>
  Claim C9, as amended: a mark event is sent only under a truthy \<open>streamSid\<close>, whatever
  the events are, and when \<open>streamSid\<close> is truthy a delta does send one, carrying it.
  Over every event sequence whose start messages all carry a truthy \<open>streamSid\<close>, a
  non-empty \<open>markQueue\<close> implies that \<open>streamSid\<close> is truthy, and every clear event
  sent carries a truthy \<open>streamSid\<close>.

  The claim as stated has no condition on the start messages. Line 235 stores the
  \<open>streamSid\<close> of a start message as it comes and leaves \<open>markQueue\<close> alone: a start
  message without one, arriving while a mark is queued, leaves the queue non-empty with
  \<open>streamSid\<close> unset, and the next interruption sends a clear event with \<open>streamSid\<close>
  \<open>null\<close>.
\<close>

theorem marks_need_stream:
  "(truthy_str (streamSid s) \<and> d \<noteq> [] \<longrightarrow>
      snd (step s (Ai_message (Audio_delta d i))) =
        [Tel_send (Out_media (streamSid s) (base64_normalize d)),
         Tel_send (Out_mark (streamSid s) ''responsePart'')])
   \<and> (Tel_send (Out_mark sid name) \<in> set (snd (run initial evs)) \<longrightarrow> truthy_str sid)
   \<and> (starts_named evs \<longrightarrow>
        (markQueue (fst (run initial evs)) \<noteq> [] \<longrightarrow>
           truthy_str (streamSid (fst (run initial evs))))
        \<and> (Tel_send (Out_clear sid') \<in> set (snd (run initial evs)) \<longrightarrow> truthy_str sid'))"
proof (intro conjI impI)
  assume "truthy_str (streamSid s) \<and> d \<noteq> []"
  then show "snd (step s (Ai_message (Audio_delta d i))) =
        [Tel_send (Out_media (streamSid s) (base64_normalize d)),
         Tel_send (Out_mark (streamSid s) ''responsePart'')]"
    by (simp add: sendMark_def Let_def split_beta)
next
  assume "Tel_send (Out_mark sid name) \<in> set (snd (run initial evs))"
  with run_mark_has_sid[of initial evs]
  have "mark_has_sid (Tel_send (Out_mark sid name))"
    unfolding list_all_iff by blast
  then show "truthy_str sid" by simp
next
  assume "starts_named evs" and "markQueue (fst (run initial evs)) \<noteq> []"
  with run_sid_ok[of initial evs] show "truthy_str (streamSid (fst (run initial evs)))"
    by (simp add: sid_ok_def initial_def)
next
  assume "starts_named evs" and c: "Tel_send (Out_clear sid') \<in> set (snd (run initial evs))"
  with run_sid_ok[of initial evs] have "list_all clear_has_sid (snd (run initial evs))"
    by (simp add: sid_ok_def initial_def)
  with c have "clear_has_sid (Tel_send (Out_clear sid'))"
    unfolding list_all_iff by blast
  then show "truthy_str sid'" by simp
qed

theorem marks_need_stream_witness:
  "snd (step (initial\<lparr> streamSid := Some ''S1'' \<rparr>) (Ai_message (Audio_delta ''QUJD'' (Some ''I1''))))
     = [Tel_send (Out_media (Some ''S1'') ''QUJD''),
        Tel_send (Out_mark (Some ''S1'') ''responsePart'')]
   \<and> Tel_send (Out_mark (Some ''S1'') ''responsePart'') \<in> set (snd (run initial
       [Tel_message (Tel_start (Some ''S1'')), Ai_opened, Init_timer,
        Ai_message (Audio_delta ''QUJD'' (Some ''I1'')), Ai_message Speech_started]))
   \<and> truthy_str (Some ''S1'')
   \<and> starts_named [Tel_message (Tel_start (Some ''S1'')), Ai_opened, Init_timer,
        Ai_message (Audio_delta ''QUJD'' (Some ''I1''))]
   \<and> markQueue (fst (run initial [Tel_message (Tel_start (Some ''S1'')), Ai_opened, Init_timer,
        Ai_message (Audio_delta ''QUJD'' (Some ''I1''))])) \<noteq> []
   \<and> truthy_str (streamSid (fst (run initial [Tel_message (Tel_start (Some ''S1'')),
        Ai_opened, Init_timer, Ai_message (Audio_delta ''QUJD'' (Some ''I1''))])))
   \<and> Tel_send (Out_clear (Some ''S1'')) \<in> set (snd (run initial
       [Tel_message (Tel_start (Some ''S1'')), Ai_opened, Init_timer,
        Ai_message (Audio_delta ''QUJD'' (Some ''I1'')), Ai_message Speech_started]))"
  using marks_need_stream [of "initial\<lparr> streamSid := Some ''S1'' \<rparr>" "''QUJD''" "Some ''I1''"
       "Some ''S1''" "''responsePart''"
       "[Tel_message (Tel_start (Some ''S1'')), Ai_opened, Init_timer,
        Ai_message (Audio_delta ''QUJD'' (Some ''I1'')), Ai_message Speech_started]" "Some ''S1''"]
    marks_need_stream [of "initial\<lparr> streamSid := Some ''S1'' \<rparr>" "''QUJD''" "Some ''I1''"
       "Some ''S1''" "''responsePart''"
       "[Tel_message (Tel_start (Some ''S1'')), Ai_opened, Init_timer,
        Ai_message (Audio_delta ''QUJD'' (Some ''I1''))]" "Some ''S1''"]
  by (simp add: run_eval)

theorem unnamed_start_counterexample:
  "markQueue (fst (run initial
      [Tel_message (Tel_start (Some ''S1'')), Ai_opened, Init_timer,
       Ai_message (Audio_delta ''QUJD'' (Some ''I1'')), Tel_message (Tel_start None)]))
     = [''responsePart'']
   \<and> streamSid (fst (run initial
      [Tel_message (Tel_start (Some ''S1'')), Ai_opened, Init_timer,
       Ai_message (Audio_delta ''QUJD'' (Some ''I1'')), Tel_message (Tel_start None)]))
     = None
   \<and> snd (step (fst (run initial
      [Tel_message (Tel_start (Some ''S1'')), Ai_opened, Init_timer,
       Ai_message (Audio_delta ''QUJD'' (Some ''I1'')), Tel_message (Tel_start None),
       Ai_message (Audio_delta ''QUJD'' (Some ''I1''))])) (Ai_message Speech_started))
     = [Ai_send (Truncate ''I1'' 0 0), Tel_send (Out_clear None)]"
  by (simp add: run_eval)



end
